theory Spec2Isabelle
  imports Complex_Main "HOL-Library.Multiset"
begin

section \<open>Assessment configuration (shared/assessment)\<close>

text \<open>
  The string-literal unions \<^verbatim>\<open>Category\<close> and \<^verbatim>\<open>RiskLevel\<close> are closed enumerations.
  Where the program uses a category as an object key or puts it into a \<^verbatim>\<open>string[]\<close>,
  \<open>category_name\<close> gives the literal.
\<close>

datatype Category = Behavioral | Knowledge | Environmental | Socioeconomic

datatype RiskLevel = Low | Moderate | High

fun category_name :: "Category \<Rightarrow> string" where
  "category_name Behavioral = ''behavioral''"
| "category_name Knowledge = ''knowledge''"
| "category_name Environmental = ''environmental''"
| "category_name Socioeconomic = ''socioeconomic''"

record AssessmentOption =
  opt_text :: string
  opt_points :: int

record AssessmentQuestion =
  q_id :: string
  q_number :: int
  q_category :: Category
  q_question :: string
  q_options :: "AssessmentOption list"

text \<open>
  \<^verbatim>\<open>Record<Category, number>\<close> objects are always built with the four keys in the order
  behavioral, knowledge, environmental, socioeconomic; \<open>Object_entries\<close> and
  \<open>Object_values\<close> enumerate them in that insertion order, as JavaScript does.
\<close>

record 'a CategoryRecord =
  behavioral :: 'a
  knowledge :: 'a
  environmental :: 'a
  socioeconomic :: 'a

fun lookup :: "'a CategoryRecord \<Rightarrow> Category \<Rightarrow> 'a" where
  "lookup r Behavioral = behavioral r"
| "lookup r Knowledge = knowledge r"
| "lookup r Environmental = environmental r"
| "lookup r Socioeconomic = socioeconomic r"

definition Object_entries :: "'a CategoryRecord \<Rightarrow> (Category \<times> 'a) list" where
  "Object_entries r =
     [(Behavioral, behavioral r), (Knowledge, knowledge r),
      (Environmental, environmental r), (Socioeconomic, socioeconomic r)]"

definition Object_values :: "'a CategoryRecord \<Rightarrow> 'a list" where
  "Object_values r = [behavioral r, knowledge r, environmental r, socioeconomic r]"

definition mk_option :: "string \<Rightarrow> int \<Rightarrow> AssessmentOption" where
  "mk_option t p = \<lparr>opt_text = t, opt_points = p\<rparr>"

definition ASSESSMENT_QUESTIONS :: "AssessmentQuestion list" where
  "ASSESSMENT_QUESTIONS =
    [\<lparr>q_id = ''behavioral_1'', q_number = 1, q_category = Behavioral,
      q_question = ''Do you buy antibiotics without a doctor's prescription?'',
      q_options = [mk_option ''Never'' 0, mk_option ''Sometimes'' 2, mk_option ''Often'' 3]\<rparr>,
     \<lparr>q_id = ''behavioral_2'', q_number = 2, q_category = Behavioral,
      q_question = ''Do you stop taking antibiotics when you feel better, even if the course is not complete?'',
      q_options = [mk_option ''No'' 0, mk_option ''Yes'' 3]\<rparr>,
     \<lparr>q_id = ''behavioral_3'', q_number = 3, q_category = Behavioral,
      q_question = ''Do you use leftover antibiotics from previous illnesses?'',
      q_options = [mk_option ''No'' 0, mk_option ''Yes'' 3]\<rparr>,
     \<lparr>q_id = ''behavioral_4'', q_number = 4, q_category = Behavioral,
      q_question = ''Do you share your antibiotics with family members or friends?'',
      q_options = [mk_option ''No'' 0, mk_option ''Yes'' 2]\<rparr>,
     \<lparr>q_id = ''knowledge_1'', q_number = 5, q_category = Knowledge,
      q_question = ''Do you know that antibiotics only work against bacteria and not viruses?'',
      q_options = [mk_option ''No'' 0, mk_option ''Yes'' 2]\<rparr>,
     \<lparr>q_id = ''knowledge_2'', q_number = 6, q_category = Knowledge,
      q_question = ''Are you aware that it is bacteria that become resistant, not your body?'',
      q_options = [mk_option ''No'' 0, mk_option ''Yes'' 1]\<rparr>,
     \<lparr>q_id = ''knowledge_3'', q_number = 7, q_category = Knowledge,
      q_question = ''Do you know what Antimicrobial Resistance (AMR) is?'',
      q_options = [mk_option ''No'' 0, mk_option ''Yes'' 1]\<rparr>,
     \<lparr>q_id = ''environmental_1'', q_number = 8, q_category = Environmental,
      q_question = ''Do you have access to clean drinking water and proper sanitation?'',
      q_options = [mk_option ''Yes'' 0, mk_option ''No'' 2]\<rparr>,
     \<lparr>q_id = ''environmental_2'', q_number = 9, q_category = Environmental,
      q_question = ''Do you live in an area with poor waste management or environmental pollution?'',
      q_options = [mk_option ''No'' 0, mk_option ''Yes'' 2]\<rparr>,
     \<lparr>q_id = ''environmental_3'', q_number = 10, q_category = Environmental,
      q_question = ''How often do you wash your hands with clean water and soap?'',
      q_options = [mk_option ''Always'' 0, mk_option ''Sometimes'' 1, mk_option ''Rarely'' 2]\<rparr>,
     \<lparr>q_id = ''socioeconomic_1'', q_number = 11, q_category = Socioeconomic,
      q_question = ''Do you skip doses of prescribed antibiotics due to cost?'',
      q_options = [mk_option ''No'' 0, mk_option ''Yes'' 2]\<rparr>,
     \<lparr>q_id = ''socioeconomic_2'', q_number = 12, q_category = Socioeconomic,
      q_question = ''Do you buy antibiotics from informal vendors or street sellers instead of licensed pharmacies?'',
      q_options = [mk_option ''No'' 0, mk_option ''Yes'' 2]\<rparr>]"

text \<open>
  JavaScript numbers are modelled exactly: point values, point sums and rounded scores
  are integers, the weights and the weighted total are rationals (0.4 is 2/5, 0.2 is
  1/5). \<^verbatim>\<open>Math.round\<close> rounds to the nearest integer, a tie going up. The
  quantities the program rounds are a multiple of 1/11, 1/4 or 1/6 (a percentage) or of
  1/5 (the weighted total), so none is within 1/22 of a tie, and integer sums are exact
  in double arithmetic: on the point values a database column can hold, the exact
  result is the one the program computes.
\<close>

definition CATEGORY_WEIGHTS :: "rat CategoryRecord" where
  "CATEGORY_WEIGHTS =
     \<lparr>behavioral = 2 / 5, knowledge = 1 / 5, environmental = 1 / 5, socioeconomic = 1 / 5\<rparr>"

definition MAX_POINTS_PER_CATEGORY :: "int CategoryRecord" where
  "MAX_POINTS_PER_CATEGORY =
     \<lparr>behavioral = 11, knowledge = 4, environmental = 6, socioeconomic = 4\<rparr>"

record Band =
  band_min :: int
  band_max :: int

fun RISK_LEVEL_THRESHOLDS :: "RiskLevel \<Rightarrow> Band" where
  "RISK_LEVEL_THRESHOLDS Low = \<lparr>band_min = 0, band_max = 30\<rparr>"
| "RISK_LEVEL_THRESHOLDS Moderate = \<lparr>band_min = 31, band_max = 60\<rparr>"
| "RISK_LEVEL_THRESHOLDS High = \<lparr>band_min = 61, band_max = 100\<rparr>"

definition in_band :: "RiskLevel \<Rightarrow> int \<Rightarrow> bool" where
  "in_band l s = (band_min (RISK_LEVEL_THRESHOLDS l) \<le> s \<and> s \<le> band_max (RISK_LEVEL_THRESHOLDS l))"

definition getQuestionByNumber_in :: "AssessmentQuestion list \<Rightarrow> int \<Rightarrow> AssessmentQuestion option" where
  "getQuestionByNumber_in cat n = find (\<lambda>q. q_number q = n) cat"

definition getQuestionByNumber :: "int \<Rightarrow> AssessmentQuestion option" where
  "getQuestionByNumber = getQuestionByNumber_in ASSESSMENT_QUESTIONS"

text \<open>
  \<^verbatim>\<open>getRiskLevel\<close> is only ever called with the result of \<^verbatim>\<open>Math.round\<close>, an integer.
\<close>

definition getRiskLevel :: "int \<Rightarrow> RiskLevel" where
  "getRiskLevel score = (if score \<le> 30 then Low else if score \<le> 60 then Moderate else High)"

definition Math_round :: "rat \<Rightarrow> int" where
  "Math_round x = \<lfloor>x + 1 / 2\<rfloor>"

section \<open>Scoring engine (server/scoring.ts)\<close>

record AssessmentAnswer =
  a_questionId :: string
  a_category :: Category
  a_answerText :: string
  a_points :: int

record ScoringResult =
  totalScore :: rat
  riskLevel :: RiskLevel
  categoryScores :: "int CategoryRecord"
  categoryPercentages :: "int CategoryRecord"
  highestRiskCategories :: "string list"
  interpretation' :: string
  recommendations :: "string list"

text \<open>
  Every \<^verbatim>\<open>throw new Error(...)\<close> of the server is a constructor; the numbers a message
  interpolates are its arguments. \<open>DuplicateEntry\<close> is the storage layer rejecting an
  insert that breaks a \<^verbatim>\<open>unique()\<close> column of the schema, \<open>InvalidInput\<close> the input
  schema of a procedure rejecting its argument.
\<close>

datatype error =
    ExpectedAnswers nat nat
  | SessionNotFound
  | AssessmentAlreadyCompleted
  | ValidationError string
  | IncompleteAssessment nat nat
  | DatabaseNotAvailable
  | DuplicateEntry
  | InvalidInput
  | FailedToCreateSession
  | FailedToRetrieveQuestion
  | FailedToRetrieveResult

definition calculateCategoryPercentage :: "int \<Rightarrow> Category \<Rightarrow> int" where
  "calculateCategoryPercentage categoryScore category =
     (let maxPoints = lookup MAX_POINTS_PER_CATEGORY category in
      if maxPoints = 0 then 0
      else Math_round (of_int categoryScore / of_int maxPoints * 100))"

text \<open>\<^verbatim>\<open>Math.max\<close> is applied to the four values of the record, never to an empty list.\<close>

definition findHighestRiskCategories :: "int CategoryRecord \<Rightarrow> string list" where
  "findHighestRiskCategories cp =
     (let maxPercentage = Max (set (Object_values cp)) in
      if maxPercentage = 0 then []
      else map (\<lambda>(category, percentage). category_name category)
             (filter (\<lambda>(category, percentage). percentage = maxPercentage) (Object_entries cp)))"

text \<open>Template literals print an integer in decimal, with a minus sign when negative.\<close>

definition digit_char :: "nat \<Rightarrow> char" where
  "digit_char d = ''0123456789'' ! d"

fun decimal :: "nat \<Rightarrow> string" where
  "decimal n = (if 10 \<le> n then decimal (n div 10) @ [digit_char (n mod 10)] else [digit_char n])"

definition number_to_string :: "int \<Rightarrow> string" where
  "number_to_string i = (if 0 \<le> i then decimal (nat i) else CHR ''-'' # decimal (nat (- i)))"

fun generateInterpretation :: "RiskLevel \<Rightarrow> int \<Rightarrow> string" where
  "generateInterpretation Low score =
     ''Your AMR Risk Level is LOW (Score: '' @ number_to_string score @
     ''/100). You demonstrate good antimicrobial stewardship practices. Continue following professional medical advice and maintaining your current practices.''"
| "generateInterpretation Moderate score =
     ''Your AMR Risk Level is MODERATE (Score: '' @ number_to_string score @
     ''/100). Some of your habits may increase your risk of contributing to antimicrobial resistance. Review the recommendations provided to reduce your risk.''"
| "generateInterpretation High score =
     ''Your AMR Risk Level is HIGH (Score: '' @ number_to_string score @
     ''/100). Your current practices significantly increase your risk of contributing to antimicrobial resistance. Please consult a licensed healthcare professional for guidance on improving your practices.''"

text \<open>
  The four symbols that open the recommendation lines are outside ASCII; each is kept
  as the bytes of its UTF-8 encoding (check mark, warning sign, right arrow, books).
\<close>

definition check_mark :: string where
  "check_mark = [CHR 0xE2, CHR 0x9C, CHR 0x93]"

definition warning_sign :: string where
  "warning_sign = [CHR 0xE2, CHR 0x9A, CHR 0xA0]"

definition right_arrow :: string where
  "right_arrow = [CHR 0xE2, CHR 0x86, CHR 0x92]"

definition books :: string where
  "books = [CHR 0xF0, CHR 0x9F, CHR 0x93, CHR 0x9A]"

definition categoryRecommendations :: "(string \<times> string list) list" where
  "categoryRecommendations =
    [(''behavioral'',
      [check_mark @ '' Always complete the full course of antibiotics as prescribed, even if you feel better.'',
       check_mark @ '' Only buy antibiotics with a valid doctor's prescription.'',
       check_mark @ '' Never use leftover antibiotics from previous illnesses.'',
       check_mark @ '' Do not share your antibiotics with family members or friends.'']),
     (''knowledge'',
      [check_mark @ '' Remember: Antibiotics only work against bacteria, not viruses like colds or flu.'',
       check_mark @ '' It is bacteria that become resistant, not your body.'',
       check_mark @ '' Always consult a healthcare professional to determine if you need antibiotics.'',
       check_mark @ '' Learn more about Antimicrobial Resistance (AMR) to make informed health decisions.'']),
     (''environmental'',
      [check_mark @ '' Wash your hands frequently with clean water and soap.'',
       check_mark @ '' Ensure access to clean drinking water and proper sanitation.'',
       check_mark @ '' Practice good food hygiene to prevent infections.'',
       check_mark @ '' Support community efforts to improve environmental sanitation.'']),
     (''socioeconomic'',
      [check_mark @ '' Do not skip doses due to cost; consult a healthcare provider for affordable options.'',
       check_mark @ '' Visit licensed pharmacies or clinics instead of informal vendors.'',
       check_mark @ '' Seek government health programs that provide subsidized medicines.'',
       check_mark @ '' Report counterfeit medicines to local health authorities.''])]"

definition generateRecommendations :: "RiskLevel \<Rightarrow> string list \<Rightarrow> string list" where
  "generateRecommendations level highest =
     (let recs0 =
            (if length highest > 0 then
               fold (\<lambda>category recs.
                       case map_of categoryRecommendations category of
                         Some rs \<Rightarrow> recs @ rs
                       | None \<Rightarrow> recs) highest []
             else []);
          recs1 =
            (if level = High then
               recs0 @
               [warning_sign @ '' Please consult a licensed healthcare professional before taking any antibiotics.'',
                warning_sign @ '' Report any unusual symptoms to a medical professional immediately.'']
             else if level = Moderate then
               recs0 @
               [right_arrow @ '' Learn more about antimicrobial resistance to make informed health decisions.'',
                right_arrow @ '' Share this knowledge with your family and community.'']
             else recs0)
      in recs1 @
         [books @ '' This assessment is for educational purposes only and is not a medical diagnosis. Please consult a healthcare professional for personalized medical advice.''])"

definition add_points :: "AssessmentAnswer \<Rightarrow> int CategoryRecord \<Rightarrow> int CategoryRecord" where
  "add_points answer scores =
     (case a_category answer of
        Behavioral \<Rightarrow> scores\<lparr>behavioral := behavioral scores + a_points answer\<rparr>
      | Knowledge \<Rightarrow> scores\<lparr>knowledge := knowledge scores + a_points answer\<rparr>
      | Environmental \<Rightarrow> scores\<lparr>environmental := environmental scores + a_points answer\<rparr>
      | Socioeconomic \<Rightarrow> scores\<lparr>socioeconomic := socioeconomic scores + a_points answer\<rparr>)"

definition calculateRiskScore :: "AssessmentAnswer list \<Rightarrow> error + ScoringResult" where
  "calculateRiskScore answers =
     (if length answers \<noteq> length ASSESSMENT_QUESTIONS
      then Inl (ExpectedAnswers (length ASSESSMENT_QUESTIONS) (length answers))
      else
        let scores = fold add_points answers
                       \<lparr>behavioral = 0, knowledge = 0, environmental = 0, socioeconomic = 0\<rparr>;
            percentages =
              \<lparr>behavioral = calculateCategoryPercentage (behavioral scores) Behavioral,
               knowledge = calculateCategoryPercentage (knowledge scores) Knowledge,
               environmental = calculateCategoryPercentage (environmental scores) Environmental,
               socioeconomic = calculateCategoryPercentage (socioeconomic scores) Socioeconomic\<rparr>;
            total = fold (\<lambda>(category, percentage) acc.
                            acc + of_int percentage * lookup CATEGORY_WEIGHTS category)
                      (Object_entries percentages) 0;
            normalizedScore = Math_round total;
            level = getRiskLevel normalizedScore;
            highest = findHighestRiskCategories percentages
        in Inr \<lparr>totalScore = of_int (Math_round (total * 100)) / 100,
                riskLevel = level,
                categoryScores = scores,
                categoryPercentages = percentages,
                highestRiskCategories = highest,
                interpretation' = generateInterpretation level normalizedScore,
                recommendations = generateRecommendations level highest\<rparr>)"

text \<open>
  \<^verbatim>\<open>validateAnswer\<close> returns one of three object literals: two with \<^verbatim>\<open>valid: false\<close> and
  an error message, one with \<^verbatim>\<open>valid: true\<close>, the points and the category.
\<close>

datatype ValidationResult = Invalid string | Valid int Category

fun join :: "string \<Rightarrow> string list \<Rightarrow> string" where
  "join sep [] = []"
| "join sep [x] = x"
| "join sep (x # y # ys) = x @ sep @ join sep (y # ys)"

definition validateAnswer :: "string \<Rightarrow> string \<Rightarrow> ValidationResult" where
  "validateAnswer questionId answerText =
     (case find (\<lambda>q. q_id q = questionId) ASSESSMENT_QUESTIONS of
        None \<Rightarrow> Invalid ''Question not found''
      | Some question \<Rightarrow>
          (case find (\<lambda>opt. opt_text opt = answerText) (q_options question) of
             None \<Rightarrow> Invalid (''Invalid answer option. Valid options: '' @
                               join '', '' (map opt_text (q_options question)))
           | Some option \<Rightarrow> Valid (opt_points option) (q_category question)))"

section \<open>Session store (drizzle schema, server/db.ts)\<close>

text \<open>
  The three tables, each a list of rows in insertion order. The auto-increment keys and
  the timestamp columns are left out: no operation reads them. The \<^verbatim>\<open>category\<close> column
  only ever receives the category \<^verbatim>\<open>validateAnswer\<close> returned, so it is kept at
  that type. \<^verbatim>\<open>getDb()\<close> yields no database when none is configured: a database is a
  \<open>store option\<close>.
\<close>

datatype Status = in_progress | completed | abandoned

record Assessment =
  s_sessionId :: string
  s_status :: Status
  s_userAgent :: "string option"
  s_ipHash :: "string option"

record AssessmentResponse =
  r_sessionId :: string
  r_questionId :: string
  r_category :: Category
  r_answerText :: string
  r_points :: int

record AssessmentResult =
  res_sessionId :: string
  res_totalScore :: rat
  res_riskLevel :: RiskLevel
  res_categoryScores :: "int CategoryRecord"
  res_categoryPercentages :: "int CategoryRecord"
  res_highestRiskCategories :: "string list"
  res_interpretation :: string
  res_recommendations :: "string list"

record store =
  assessments :: "Assessment list"
  assessmentResponses :: "AssessmentResponse list"
  assessmentResults :: "AssessmentResult list"

type_synonym db = "store option"

definition empty_store :: store where
  "empty_store = \<lparr>assessments = [], assessmentResponses = [], assessmentResults = []\<rparr>"

text \<open>\<^verbatim>\<open>assessments.sessionId\<close> is \<^verbatim>\<open>unique()\<close>: a second row with the same value is refused.\<close>

definition createAssessmentSession ::
  "db \<Rightarrow> string \<Rightarrow> string option \<Rightarrow> string option \<Rightarrow> error + store" where
  "createAssessmentSession d sessionId userAgent ipHash =
     (case d of
        None \<Rightarrow> Inl DatabaseNotAvailable
      | Some st \<Rightarrow>
          if sessionId \<in> set (map s_sessionId (assessments st)) then Inl DuplicateEntry
          else Inr (st\<lparr>assessments := assessments st @
                  [\<lparr>s_sessionId = sessionId, s_status = in_progress,
                    s_userAgent = userAgent, s_ipHash = ipHash\<rparr>]\<rparr>))"

definition getAssessmentSession :: "db \<Rightarrow> string \<Rightarrow> error + Assessment option" where
  "getAssessmentSession d sessionId =
     (case d of
        None \<Rightarrow> Inl DatabaseNotAvailable
      | Some st \<Rightarrow> Inr (find (\<lambda>a. s_sessionId a = sessionId) (assessments st)))"

text \<open>\<^verbatim>\<open>assessmentResponses\<close> has no unique column besides its key: every insert adds a row.\<close>

definition saveAssessmentResponse ::
  "db \<Rightarrow> string \<Rightarrow> string \<Rightarrow> Category \<Rightarrow> string \<Rightarrow> int \<Rightarrow> error + store" where
  "saveAssessmentResponse d sessionId questionId category answerText points =
     (case d of
        None \<Rightarrow> Inl DatabaseNotAvailable
      | Some st \<Rightarrow>
          Inr (st\<lparr>assessmentResponses := assessmentResponses st @
                 [\<lparr>r_sessionId = sessionId, r_questionId = questionId, r_category = category,
                   r_answerText = answerText, r_points = points\<rparr>]\<rparr>))"

definition getAssessmentResponses :: "db \<Rightarrow> string \<Rightarrow> error + AssessmentResponse list" where
  "getAssessmentResponses d sessionId =
     (case d of
        None \<Rightarrow> Inl DatabaseNotAvailable
      | Some st \<Rightarrow> Inr (filter (\<lambda>r. r_sessionId r = sessionId) (assessmentResponses st)))"

text \<open>\<^verbatim>\<open>assessmentResults.sessionId\<close> is \<^verbatim>\<open>unique()\<close> as well.\<close>

definition saveAssessmentResult :: "db \<Rightarrow> string \<Rightarrow> ScoringResult \<Rightarrow> error + store" where
  "saveAssessmentResult d sessionId result =
     (case d of
        None \<Rightarrow> Inl DatabaseNotAvailable
      | Some st \<Rightarrow>
          if sessionId \<in> set (map res_sessionId (assessmentResults st)) then Inl DuplicateEntry
          else Inr (st\<lparr>assessmentResults := assessmentResults st @
                  [\<lparr>res_sessionId = sessionId,
                    res_totalScore = totalScore result,
                    res_riskLevel = riskLevel result,
                    res_categoryScores = categoryScores result,
                    res_categoryPercentages = categoryPercentages result,
                    res_highestRiskCategories = highestRiskCategories result,
                    res_interpretation = interpretation' result,
                    res_recommendations = recommendations result\<rparr>]\<rparr>))"

definition getAssessmentResult :: "db \<Rightarrow> string \<Rightarrow> error + AssessmentResult option" where
  "getAssessmentResult d sessionId =
     (case d of
        None \<Rightarrow> Inl DatabaseNotAvailable
      | Some st \<Rightarrow> Inr (find (\<lambda>r. res_sessionId r = sessionId) (assessmentResults st)))"

definition completeAssessment :: "db \<Rightarrow> string \<Rightarrow> error + store" where
  "completeAssessment d sessionId =
     (case d of
        None \<Rightarrow> Inl DatabaseNotAvailable
      | Some st \<Rightarrow>
          Inr (st\<lparr>assessments :=
                 map (\<lambda>a. if s_sessionId a = sessionId then a\<lparr>s_status := completed\<rparr> else a)
                   (assessments st)\<rparr>))"

section \<open>Assessment router\<close>

text \<open>
  Each procedure takes the database and returns its answer with the database after the
  call. The fresh identifier of \<^verbatim>\<open>createSession\<close> (\<^verbatim>\<open>nanoid(32)\<close>), the user agent and
  the hash of the caller's address are arguments; the creation time it also returns is
  left out. An argument the input schema of a
  procedure refuses (an empty string, a question number outside 1 to 12) never reaches
  the handler. The catalog read by the two question procedures is an argument of their
  \<open>_in\<close> forms, so that statements can vary it; the procedures themselves read
  \<open>ASSESSMENT_QUESTIONS\<close>.
\<close>

definition createSession ::
  "db \<Rightarrow> string \<Rightarrow> string option \<Rightarrow> string option \<Rightarrow> (error + string) \<times> db" where
  "createSession d sessionId userAgent ipHash =
     (case createAssessmentSession d sessionId userAgent ipHash of
        Inl e \<Rightarrow> (Inl FailedToCreateSession, d)
      | Inr st \<Rightarrow> (Inr sessionId, Some st))"

record OptionView =
  v_text :: string

record QuestionView =
  v_id :: string
  v_number :: int
  v_category :: Category
  v_question :: string
  v_options :: "OptionView list"

definition question_view :: "AssessmentQuestion \<Rightarrow> QuestionView" where
  "question_view q =
     \<lparr>v_id = q_id q, v_number = q_number q, v_category = q_category q,
      v_question = q_question q,
      v_options = map (\<lambda>opt. \<lparr>v_text = opt_text opt\<rparr>) (q_options q)\<rparr>"

definition getQuestion_in ::
  "AssessmentQuestion list \<Rightarrow> db \<Rightarrow> string \<Rightarrow> int \<Rightarrow> error + QuestionView \<times> nat" where
  "getQuestion_in cat d sessionId questionNumber =
     (if sessionId = [] \<or> questionNumber < 1 \<or> 12 < questionNumber then Inl InvalidInput
      else
        case getAssessmentSession d sessionId of
          Inl e \<Rightarrow> Inl FailedToRetrieveQuestion
        | Inr None \<Rightarrow> Inl FailedToRetrieveQuestion
        | Inr (Some session) \<Rightarrow>
            (case getQuestionByNumber_in cat questionNumber of
               None \<Rightarrow> Inl FailedToRetrieveQuestion
             | Some question \<Rightarrow> Inr (question_view question, length cat)))"

definition getQuestion :: "db \<Rightarrow> string \<Rightarrow> int \<Rightarrow> error + QuestionView \<times> nat" where
  "getQuestion = getQuestion_in ASSESSMENT_QUESTIONS"

definition getQuestions_in :: "AssessmentQuestion list \<Rightarrow> QuestionView list \<times> nat" where
  "getQuestions_in cat = (map question_view cat, length cat)"

definition getQuestions :: "QuestionView list \<times> nat" where
  "getQuestions = getQuestions_in ASSESSMENT_QUESTIONS"

record SubmitResponseResult =
  success :: bool
  responsesCount :: nat
  totalQuestions :: nat

definition submitResponse ::
  "db \<Rightarrow> string \<Rightarrow> string \<Rightarrow> string \<Rightarrow> (error + SubmitResponseResult) \<times> db" where
  "submitResponse d sessionId questionId answerText =
     (if sessionId = [] \<or> questionId = [] \<or> answerText = [] then (Inl InvalidInput, d)
      else
        case getAssessmentSession d sessionId of
          Inl e \<Rightarrow> (Inl e, d)
        | Inr None \<Rightarrow> (Inl SessionNotFound, d)
        | Inr (Some session) \<Rightarrow>
            if s_status session \<noteq> in_progress then (Inl AssessmentAlreadyCompleted, d)
            else
              (case validateAnswer questionId answerText of
                 Invalid msg \<Rightarrow> (Inl (ValidationError msg), d)
               | Valid points category \<Rightarrow>
                   (case saveAssessmentResponse d sessionId questionId category answerText points of
                      Inl e \<Rightarrow> (Inl e, d)
                    | Inr st \<Rightarrow>
                        (case getAssessmentResponses (Some st) sessionId of
                           Inl e \<Rightarrow> (Inl e, Some st)
                         | Inr responses \<Rightarrow>
                             (Inr \<lparr>success = True, responsesCount = length responses,
                                   totalQuestions = length ASSESSMENT_QUESTIONS\<rparr>,
                              Some st)))))"

definition answer_of_response :: "AssessmentResponse \<Rightarrow> AssessmentAnswer" where
  "answer_of_response r =
     \<lparr>a_questionId = r_questionId r, a_category = r_category r,
      a_answerText = r_answerText r, a_points = r_points r\<rparr>"

definition submitAssessment :: "db \<Rightarrow> string \<Rightarrow> (error + ScoringResult) \<times> db" where
  "submitAssessment d sessionId =
     (if sessionId = [] then (Inl InvalidInput, d)
      else
        case getAssessmentSession d sessionId of
          Inl e \<Rightarrow> (Inl e, d)
        | Inr None \<Rightarrow> (Inl SessionNotFound, d)
        | Inr (Some session) \<Rightarrow>
            (case getAssessmentResponses d sessionId of
               Inl e \<Rightarrow> (Inl e, d)
             | Inr responses \<Rightarrow>
                 if length responses \<noteq> length ASSESSMENT_QUESTIONS
                 then (Inl (IncompleteAssessment (length ASSESSMENT_QUESTIONS) (length responses)), d)
                 else
                   (case calculateRiskScore (map answer_of_response responses) of
                      Inl e \<Rightarrow> (Inl e, d)
                    | Inr result \<Rightarrow>
                        (case saveAssessmentResult d sessionId result of
                           Inl e \<Rightarrow> (Inl e, d)
                         | Inr st \<Rightarrow>
                             (case completeAssessment (Some st) sessionId of
                                Inl e \<Rightarrow> (Inl e, Some st)
                              | Inr st' \<Rightarrow> (Inr result, Some st'))))))"

definition getResult :: "db \<Rightarrow> string \<Rightarrow> error + AssessmentResult" where
  "getResult d sessionId =
     (if sessionId = [] then Inl InvalidInput
      else
        case getAssessmentResult d sessionId of
          Inl e \<Rightarrow> Inl FailedToRetrieveResult
        | Inr None \<Rightarrow> Inl FailedToRetrieveResult
        | Inr (Some result) \<Rightarrow> Inr result)"

text \<open>A client's calls that change the database, and the database after a sequence of them.\<close>

datatype request =
    CreateSession string "string option" "string option"
  | SubmitResponse string string string
  | SubmitAssessment string

fun serve :: "request \<Rightarrow> db \<Rightarrow> db" where
  "serve (CreateSession sessionId userAgent ipHash) d = snd (createSession d sessionId userAgent ipHash)"
| "serve (SubmitResponse sessionId questionId answerText) d =
     snd (submitResponse d sessionId questionId answerText)"
| "serve (SubmitAssessment sessionId) d = snd (submitAssessment d sessionId)"

definition serve_all :: "request list \<Rightarrow> db \<Rightarrow> db" where
  "serve_all requests d = fold serve requests d"

section \<open>Notions used in the statements\<close>

text \<open>The points an answer list gives to one category.\<close>

definition points_in :: "Category \<Rightarrow> AssessmentAnswer list \<Rightarrow> int" where
  "points_in c answers = sum_list (map (\<lambda>a. if a_category a = c then a_points a else 0) answers)"

text \<open>What \<open>calculateRiskScore\<close> computes once the category sums are known.\<close>

definition result_of :: "int CategoryRecord \<Rightarrow> ScoringResult" where
  "result_of scores =
     (let percentages =
            \<lparr>behavioral = calculateCategoryPercentage (behavioral scores) Behavioral,
             knowledge = calculateCategoryPercentage (knowledge scores) Knowledge,
             environmental = calculateCategoryPercentage (environmental scores) Environmental,
             socioeconomic = calculateCategoryPercentage (socioeconomic scores) Socioeconomic\<rparr>;
          total = fold (\<lambda>(category, percentage) acc.
                          acc + of_int percentage * lookup CATEGORY_WEIGHTS category)
                    (Object_entries percentages) 0;
          normalizedScore = Math_round total;
          level = getRiskLevel normalizedScore;
          highest = findHighestRiskCategories percentages
      in \<lparr>totalScore = of_int (Math_round (total * 100)) / 100,
          riskLevel = level,
          categoryScores = scores,
          categoryPercentages = percentages,
          highestRiskCategories = highest,
          interpretation' = generateInterpretation level normalizedScore,
          recommendations = generateRecommendations level highest\<rparr>)"

text \<open>The categories in the order in which the catalog's questions introduce them.\<close>

definition catalog_category_order :: "Category list" where
  "catalog_category_order = remdups (map q_category ASSESSMENT_QUESTIONS)"

text \<open>
  Twelve answers, one per question, each an option of the catalog: 8 behavioral points,
  3 knowledge, 4 environmental, 2 socioeconomic.
\<close>

definition mk_answer :: "string \<Rightarrow> Category \<Rightarrow> string \<Rightarrow> int \<Rightarrow> AssessmentAnswer" where
  "mk_answer q c t p = \<lparr>a_questionId = q, a_category = c, a_answerText = t, a_points = p\<rparr>"

definition example_answers :: "AssessmentAnswer list" where
  "example_answers =
    [mk_answer ''behavioral_1'' Behavioral ''Often'' 3,
     mk_answer ''behavioral_2'' Behavioral ''Yes'' 3,
     mk_answer ''behavioral_3'' Behavioral ''No'' 0,
     mk_answer ''behavioral_4'' Behavioral ''Yes'' 2,
     mk_answer ''knowledge_1'' Knowledge ''Yes'' 2,
     mk_answer ''knowledge_2'' Knowledge ''Yes'' 1,
     mk_answer ''knowledge_3'' Knowledge ''No'' 0,
     mk_answer ''environmental_1'' Environmental ''No'' 2,
     mk_answer ''environmental_2'' Environmental ''Yes'' 2,
     mk_answer ''environmental_3'' Environmental ''Always'' 0,
     mk_answer ''socioeconomic_1'' Socioeconomic ''Yes'' 2,
     mk_answer ''socioeconomic_2'' Socioeconomic ''No'' 0]"

text \<open>The first question of the catalog.\<close>

definition first_question :: AssessmentQuestion where
  "first_question = \<lparr>q_id = ''behavioral_1'', q_number = 1, q_category = Behavioral,
      q_question = ''Do you buy antibiotics without a doctor's prescription?'',
      q_options = [mk_option ''Never'' 0, mk_option ''Sometimes'' 2, mk_option ''Often'' 3]\<rparr>"

text \<open>
  A question with the point value of every option erased: two catalogs that agree on
  these differ in point values only. \<open>repointed_catalog\<close> is the catalog with every
  point value replaced by 7.
\<close>

definition without_points :: "AssessmentQuestion \<Rightarrow> AssessmentQuestion" where
  "without_points q = q\<lparr>q_options := map (\<lambda>opt. opt\<lparr>opt_points := 0\<rparr>) (q_options q)\<rparr>"

definition repointed_catalog :: "AssessmentQuestion list" where
  "repointed_catalog =
     map (\<lambda>q. q\<lparr>q_options := map (\<lambda>opt. opt\<lparr>opt_points := 7\<rparr>) (q_options q)\<rparr>) ASSESSMENT_QUESTIONS"

text \<open>A database holding one session in progress.\<close>

definition one_session :: db where
  "one_session = Some (empty_store\<lparr>assessments :=
     [\<lparr>s_sessionId = ''s1'', s_status = in_progress, s_userAgent = None, s_ipHash = None\<rparr>]\<rparr>)"


text \<open>
  Two histories of a session \<open>s1\<close> from the empty database: one answers the first
  question twelve times, the other answers each question once and finalizes.
\<close>

definition duplicate_requests :: "request list" where
  "duplicate_requests =
     CreateSession ''s1'' None None # replicate 12 (SubmitResponse ''s1'' ''behavioral_1'' ''Often'')"

definition duplicated_session :: db where
  "duplicated_session = serve_all duplicate_requests (Some empty_store)"

definition complete_requests :: "request list" where
  "complete_requests =
     CreateSession ''s1'' None None #
     map (\<lambda>a. SubmitResponse ''s1'' (a_questionId a) (a_answerText a)) example_answers @
     [SubmitAssessment ''s1'']"

definition completed_session :: db where
  "completed_session = serve_all complete_requests (Some empty_store)"


definition stored_results :: "db \<Rightarrow> AssessmentResult list" where
  "stored_results d = (case d of None \<Rightarrow> [] | Some st \<Rightarrow> assessmentResults st)"


section \<open>Risk classification\<close>

text \<open>
  C6. Every integer score from 0 to 100 lies in the band of exactly one risk level, the
  one \<open>getRiskLevel\<close> returns: 0 to 30 is low, 31 to 60 is moderate, 61 to 100 is high.
  The bands of \<open>RISK_LEVEL_THRESHOLDS\<close> have no gap and no overlap on that range.
\<close>

theorem getRiskLevel_partitions:
  assumes "0 \<le> s" and "s \<le> 100"
  shows "(getRiskLevel s = Low \<longleftrightarrow> 0 \<le> s \<and> s \<le> 30)
       \<and> (getRiskLevel s = Moderate \<longleftrightarrow> 31 \<le> s \<and> s \<le> 60)
       \<and> (getRiskLevel s = High \<longleftrightarrow> 61 \<le> s \<and> s \<le> 100)
       \<and> (in_band l s \<longleftrightarrow> l = getRiskLevel s)"
  using assms by (cases l) (auto simp: getRiskLevel_def in_band_def)

theorem getRiskLevel_partitions_witness:
  "getRiskLevel 30 = Low \<and> getRiskLevel 31 = Moderate \<and> getRiskLevel 60 = Moderate
   \<and> getRiskLevel 61 = High \<and> in_band Moderate 31 \<and> \<not> in_band Low 31 \<and> \<not> in_band High 31"
  using getRiskLevel_partitions [of 30 Low] getRiskLevel_partitions [of 31 Moderate]
    getRiskLevel_partitions [of 60 Moderate] getRiskLevel_partitions [of 61 High]
    getRiskLevel_partitions [of 31 Low] getRiskLevel_partitions [of 31 High]
  by simp

text \<open>
  C10. \<open>getRiskLevel\<close> is total on the integers: it returns one of the three levels for
  every score, low for every score up to 30 (negative ones included) and high for
  every score above 60 (those above 100 included).
\<close>

theorem getRiskLevel_total:
  "getRiskLevel s \<in> {Low, Moderate, High}
   \<and> (s \<le> 30 \<longrightarrow> getRiskLevel s = Low)
   \<and> (60 < s \<longrightarrow> getRiskLevel s = High)"
  by (simp add: getRiskLevel_def)

theorem getRiskLevel_total_witness:
  "getRiskLevel (- 5) = Low \<and> getRiskLevel 101 = High \<and> getRiskLevel 45 \<in> {Low, Moderate, High}"
  using getRiskLevel_total [of "- 5"] getRiskLevel_total [of 101] getRiskLevel_total [of 45]
  by simp

section \<open>Rounding and percentages\<close>

lemma Math_round_ratio:
  assumes "0 < b"
  shows "Math_round (of_int a / of_int b * 100) = (200 * a + b) div (2 * b)"
proof -
  have "(of_int a / of_int b * 100 + 1 / 2 :: rat) = of_int (200 * a + b) / of_int (2 * b)"
    using assms by (simp add: field_simps)
  then show ?thesis
    unfolding Math_round_def by (simp only: floor_divide_of_int_eq)
qed

lemma percentage_int:
  "calculateCategoryPercentage s Behavioral = (200 * s + 11) div 22"
  "calculateCategoryPercentage s Knowledge = (200 * s + 4) div 8"
  "calculateCategoryPercentage s Environmental = (200 * s + 6) div 12"
  "calculateCategoryPercentage s Socioeconomic = (200 * s + 4) div 8"
  using Math_round_ratio [of 11 s] Math_round_ratio [of 4 s] Math_round_ratio [of 6 s]
  by (simp_all add: calculateCategoryPercentage_def MAX_POINTS_PER_CATEGORY_def)

lemma floor_rat_numeral:
  "\<lfloor>(numeral a / numeral b :: rat)\<rfloor> = numeral a div numeral b"
  "\<lfloor>(1 / numeral b :: rat)\<rfloor> = 1 div numeral b"
  using floor_divide_of_int_eq [of "numeral a" "numeral b", where ?'a = rat]
    floor_divide_of_int_eq [of 1 "numeral b", where ?'a = rat]
  by simp_all

section \<open>The score is a function of the category sums\<close>

lemma fold_add_points:
  "fold add_points answers s =
     \<lparr>behavioral = behavioral s + points_in Behavioral answers,
      knowledge = knowledge s + points_in Knowledge answers,
      environmental = environmental s + points_in Environmental answers,
      socioeconomic = socioeconomic s + points_in Socioeconomic answers\<rparr>"
proof (induction answers arbitrary: s)
  case Nil
  show ?case by (simp add: points_in_def)
next
  case (Cons a as)
  have "fold add_points (a # as) s = fold add_points as (add_points a s)"
    by simp
  also have "\<dots> =
     \<lparr>behavioral = behavioral (add_points a s) + points_in Behavioral as,
      knowledge = knowledge (add_points a s) + points_in Knowledge as,
      environmental = environmental (add_points a s) + points_in Environmental as,
      socioeconomic = socioeconomic (add_points a s) + points_in Socioeconomic as\<rparr>"
    by (rule Cons.IH)
  also have "\<dots> =
     \<lparr>behavioral = behavioral s + points_in Behavioral (a # as),
      knowledge = knowledge s + points_in Knowledge (a # as),
      environmental = environmental s + points_in Environmental (a # as),
      socioeconomic = socioeconomic s + points_in Socioeconomic (a # as)\<rparr>"
    by (cases "a_category a") (simp_all add: add_points_def points_in_def)
  finally show ?case .
qed

lemma calculateRiskScore_sums:
  "calculateRiskScore answers =
     (if length answers \<noteq> 12 then Inl (ExpectedAnswers 12 (length answers))
      else Inr (result_of
        \<lparr>behavioral = points_in Behavioral answers, knowledge = points_in Knowledge answers,
         environmental = points_in Environmental answers,
         socioeconomic = points_in Socioeconomic answers\<rparr>))"
  unfolding calculateRiskScore_def result_of_def fold_add_points
  by (simp add: ASSESSMENT_QUESTIONS_def Let_def)

lemma points_in_mset:
  "points_in c answers =
     sum_mset (image_mset (\<lambda>(c', p). if c' = c then p else 0)
       (mset (map (\<lambda>a. (a_category a, a_points a)) answers)))"
  by (induction answers) (simp_all add: points_in_def)

lemma result_of_example:
  "categoryPercentages (result_of \<lparr>behavioral = 8, knowledge = 3, environmental = 4, socioeconomic = 2\<rparr>)
     = \<lparr>behavioral = 73, knowledge = 75, environmental = 67, socioeconomic = 50\<rparr>"
  "totalScore (result_of \<lparr>behavioral = 8, knowledge = 3, environmental = 4, socioeconomic = 2\<rparr>) = 676 / 10"
  "riskLevel (result_of \<lparr>behavioral = 8, knowledge = 3, environmental = 4, socioeconomic = 2\<rparr>) = High"
  "highestRiskCategories (result_of \<lparr>behavioral = 8, knowledge = 3, environmental = 4, socioeconomic = 2\<rparr>) = [''knowledge'']"
  "interpretation' (result_of \<lparr>behavioral = 8, knowledge = 3, environmental = 4, socioeconomic = 2\<rparr>) = generateInterpretation High 68"
  by (simp_all add: result_of_def Let_def percentage_int Object_entries_def Object_values_def
      CATEGORY_WEIGHTS_def Math_round_def getRiskLevel_def findHighestRiskCategories_def
      floor_rat_numeral)

text \<open>
  C1. Twelve answers whose points sum to 8 behavioral, 3 knowledge, 4 environmental and
  2 socioeconomic score as follows: the percentages are 73, 75, 67 and 50, the weighted
  total is 67.6, it rounds to 68 (the score the interpretation prints), the risk level
  is high and knowledge alone is the highest-risk category. The answers need not come
  from the catalog for this; those of the witness do.
\<close>

theorem example_scenario:
  assumes "length answers = 12"
    and "points_in Behavioral answers = 8" and "points_in Knowledge answers = 3"
    and "points_in Environmental answers = 4" and "points_in Socioeconomic answers = 2"
  shows "\<exists>r. calculateRiskScore answers = Inr r
      \<and> categoryPercentages r = \<lparr>behavioral = 73, knowledge = 75, environmental = 67, socioeconomic = 50\<rparr>
      \<and> totalScore r = 676 / 10
      \<and> Math_round (totalScore r) = 68
      \<and> interpretation' r = generateInterpretation High 68
      \<and> riskLevel r = High
      \<and> highestRiskCategories r = [''knowledge'']"
  using assms
  by (simp add: calculateRiskScore_sums result_of_example Math_round_def floor_rat_numeral)

theorem example_scenario_witness:
  "list_all (\<lambda>a. validateAnswer (a_questionId a) (a_answerText a) = Valid (a_points a) (a_category a))
     example_answers
   \<and> (\<exists>r. calculateRiskScore example_answers = Inr r
      \<and> categoryPercentages r = \<lparr>behavioral = 73, knowledge = 75, environmental = 67, socioeconomic = 50\<rparr>
      \<and> totalScore r = 676 / 10
      \<and> Math_round (totalScore r) = 68
      \<and> interpretation' r = generateInterpretation High 68
      \<and> riskLevel r = High
      \<and> highestRiskCategories r = [''knowledge''])"
proof
  show "list_all (\<lambda>a. validateAnswer (a_questionId a) (a_answerText a) = Valid (a_points a) (a_category a))
     example_answers"
    by (simp add: example_answers_def mk_answer_def validateAnswer_def ASSESSMENT_QUESTIONS_def
        mk_option_def)
  have "length example_answers = 12"
    and "points_in Behavioral example_answers = 8" and "points_in Knowledge example_answers = 3"
    and "points_in Environmental example_answers = 4" and "points_in Socioeconomic example_answers = 2"
    by (simp_all add: example_answers_def mk_answer_def points_in_def)
  then show "\<exists>r. calculateRiskScore example_answers = Inr r
      \<and> categoryPercentages r = \<lparr>behavioral = 73, knowledge = 75, environmental = 67, socioeconomic = 50\<rparr>
      \<and> totalScore r = 676 / 10
      \<and> Math_round (totalScore r) = 68
      \<and> interpretation' r = generateInterpretation High 68
      \<and> riskLevel r = High
      \<and> highestRiskCategories r = [''knowledge'']"
    by (rule example_scenario)
qed

text \<open>
  C7. The whole result of \<open>calculateRiskScore\<close> (total, risk level, category sums and
  percentages, highest-risk categories, interpretation, recommendations in their order)
  depends only on the multiset of (category, points) pairs of the answers: two answer
  lists with the same multiset, in particular a list and any permutation of it, score
  identically. The list need not have twelve entries; a wrong length is refused with
  the same error for both.
\<close>

theorem calculateRiskScore_order_independent:
  assumes "mset (map (\<lambda>a. (a_category a, a_points a)) xs)
         = mset (map (\<lambda>a. (a_category a, a_points a)) ys)"
  shows "calculateRiskScore xs = calculateRiskScore ys"
proof -
  have "size (mset (map (\<lambda>a. (a_category a, a_points a)) xs))
      = size (mset (map (\<lambda>a. (a_category a, a_points a)) ys))"
    using assms by simp
  then have len: "length xs = length ys" by simp
  have "points_in c xs = points_in c ys" for c
    unfolding points_in_mset using assms by simp
  with len show ?thesis
    unfolding calculateRiskScore_sums by simp
qed

theorem calculateRiskScore_order_independent_witness:
  "calculateRiskScore example_answers = calculateRiskScore (rev example_answers)
   \<and> length example_answers = 12"
  using calculateRiskScore_order_independent [of example_answers "rev example_answers"]
  by (simp add: rev_map example_answers_def)

section \<open>Highest-risk categories\<close>

lemma catalog_category_order_eq:
  "catalog_category_order = [Behavioral, Knowledge, Environmental, Socioeconomic]"
  by (simp add: catalog_category_order_def ASSESSMENT_QUESTIONS_def)

lemma findHighest_filter:
  "findHighestRiskCategories cp =
    (if Max (set (Object_values cp)) = 0 then []
     else map category_name
            (filter (\<lambda>c. lookup cp c = Max (set (Object_values cp))) catalog_category_order))"
  by (simp add: findHighestRiskCategories_def Let_def Object_entries_def catalog_category_order_eq)

lemma Max_values:
  "(\<forall>c. lookup cp c \<le> Max (set (Object_values cp)))
   \<and> (\<exists>c. lookup cp c = Max (set (Object_values cp)))"
proof
  show "\<forall>c. lookup cp c \<le> Max (set (Object_values cp))"
  proof
    fix c
    have "lookup cp c \<in> set (Object_values cp)"
      by (cases c) (simp_all add: Object_values_def)
    then show "lookup cp c \<le> Max (set (Object_values cp))"
      by (simp only: Max_ge finite_set)
  qed
  have "Max (set (Object_values cp)) \<in> set (Object_values cp)"
    by (rule Max_in) (simp_all add: Object_values_def)
  then show "\<exists>c. lookup cp c = Max (set (Object_values cp))"
    unfolding Object_values_def
    by (metis lookup.simps insert_iff list.simps(15) empty_iff empty_set)
qed

text \<open>
  C5. Let m be the value \<open>findHighestRiskCategories\<close> takes as the maximum: it is an
  upper bound of the four percentages and one of them. If m is 0 the result is empty;
  otherwise it is the names of exactly the categories whose percentage is m, in catalog
  category order. In particular, when two categories tie at a non-zero maximum and the
  other two are strictly below, the result is those two, in catalog order.
\<close>

theorem highest_risk_selection:
  "(\<forall>c. lookup cp c \<le> Max (set (Object_values cp)))
   \<and> (\<exists>c. lookup cp c = Max (set (Object_values cp)))
   \<and> (Max (set (Object_values cp)) = 0 \<longrightarrow> findHighestRiskCategories cp = [])
   \<and> (Max (set (Object_values cp)) \<noteq> 0 \<longrightarrow>
        findHighestRiskCategories cp =
          map category_name
            (filter (\<lambda>c. lookup cp c = Max (set (Object_values cp))) catalog_category_order))
   \<and> (c1 \<noteq> c2 \<and> lookup cp c1 = lookup cp c2 \<and> lookup cp c1 \<noteq> 0
        \<and> (\<forall>c. lookup cp c \<le> lookup cp c1)
        \<and> (\<forall>c. c \<noteq> c1 \<and> c \<noteq> c2 \<longrightarrow> lookup cp c < lookup cp c1) \<longrightarrow>
        findHighestRiskCategories cp =
          map category_name (filter (\<lambda>c. c = c1 \<or> c = c2) catalog_category_order))"
proof -
  have tie: "findHighestRiskCategories cp =
          map category_name (filter (\<lambda>c. c = c1 \<or> c = c2) catalog_category_order)"
    if h: "c1 \<noteq> c2" "lookup cp c1 = lookup cp c2" "lookup cp c1 \<noteq> 0"
      "\<forall>c. lookup cp c \<le> lookup cp c1"
      "\<forall>c. c \<noteq> c1 \<and> c \<noteq> c2 \<longrightarrow> lookup cp c < lookup cp c1"
  proof -
    have m: "Max (set (Object_values cp)) = lookup cp c1"
      using Max_values [of cp] h(4) by (metis order_antisym)
    have "(lookup cp c = lookup cp c1) = (c = c1 \<or> c = c2)" for c
      using h(2) h(5) by (metis less_irrefl)
    then show ?thesis
      using h(3) by (simp add: findHighest_filter m)
  qed
  show ?thesis
  proof (intro conjI impI)
    show "\<forall>c. lookup cp c \<le> Max (set (Object_values cp))"
      and "\<exists>c. lookup cp c = Max (set (Object_values cp))"
      using Max_values [of cp] by simp_all
    show "findHighestRiskCategories cp = []" if "Max (set (Object_values cp)) = 0"
      using that by (simp add: findHighest_filter)
    show "findHighestRiskCategories cp =
          map category_name
            (filter (\<lambda>c. lookup cp c = Max (set (Object_values cp))) catalog_category_order)"
      if "Max (set (Object_values cp)) \<noteq> 0"
      using that by (simp add: findHighest_filter)
    show "findHighestRiskCategories cp =
          map category_name (filter (\<lambda>c. c = c1 \<or> c = c2) catalog_category_order)"
      if "c1 \<noteq> c2 \<and> lookup cp c1 = lookup cp c2 \<and> lookup cp c1 \<noteq> 0
        \<and> (\<forall>c. lookup cp c \<le> lookup cp c1)
        \<and> (\<forall>c. c \<noteq> c1 \<and> c \<noteq> c2 \<longrightarrow> lookup cp c < lookup cp c1)"
      using that tie by blast
  qed
qed

theorem highest_risk_selection_witness:
  "findHighestRiskCategories \<lparr>behavioral = 0, knowledge = 0, environmental = 0, socioeconomic = 0\<rparr> = []
   \<and> findHighestRiskCategories \<lparr>behavioral = 40, knowledge = 75, environmental = 10, socioeconomic = 75\<rparr>
        = [''knowledge'', ''socioeconomic'']"
  using highest_risk_selection
     [of "\<lparr>behavioral = 0, knowledge = 0, environmental = 0, socioeconomic = 0\<rparr>"]
    highest_risk_selection
     [of "\<lparr>behavioral = 40, knowledge = 75, environmental = 10, socioeconomic = 75\<rparr>"
         Socioeconomic Knowledge]
  by (simp add: Object_values_def catalog_category_order_eq)

section \<open>Answer validation\<close>

lemma find_distinct_key:
  assumes "distinct (map f xs)" and "x \<in> set xs"
  shows "find (\<lambda>y. f y = f x) xs = Some x"
  using assms
proof (induction xs)
  case Nil
  then show ?case by simp
next
  case (Cons y ys)
  show ?case
  proof (cases "y = x")
    case True
    then show ?thesis by simp
  next
    case False
    with Cons.prems have "x \<in> set ys" by simp
    with Cons.prems have "f y \<noteq> f x" by force
    with Cons \<open>x \<in> set ys\<close> show ?thesis by simp
  qed
qed

lemma find_no_key:
  "k \<notin> f ` set xs \<Longrightarrow> find (\<lambda>y. f y = k) xs = None"
  by (induction xs) auto

lemma catalog_ids_distinct: "distinct (map q_id ASSESSMENT_QUESTIONS)"
  by (simp add: ASSESSMENT_QUESTIONS_def)

lemma catalog_labels_distinct_all:
  "list_all (\<lambda>q. distinct (map opt_text (q_options q))) ASSESSMENT_QUESTIONS"
  by (simp add: ASSESSMENT_QUESTIONS_def mk_option_def)

lemma catalog_labels_distinct:
  "q \<in> set ASSESSMENT_QUESTIONS \<Longrightarrow> distinct (map opt_text (q_options q))"
  using catalog_labels_distinct_all by (simp add: list_all_iff)

text \<open>
  C8. \<open>validateAnswer\<close>, a pure function of its two arguments: for an identifier no
  catalog question has, it answers with the message that the question was not found; for
  a catalog question and a label none of its options has, with the invalid-option
  message listing every label of the question, in order; for a catalog question and the
  label of one of its options, with that option's points and the question's category.
\<close>

theorem validateAnswer_contract:
  "(questionId \<notin> q_id ` set ASSESSMENT_QUESTIONS \<longrightarrow>
      validateAnswer questionId answerText = Invalid ''Question not found'')
   \<and> (\<forall>q \<in> set ASSESSMENT_QUESTIONS.
        q_id q = questionId \<and> answerText \<notin> opt_text ` set (q_options q) \<longrightarrow>
        validateAnswer questionId answerText =
          Invalid (''Invalid answer option. Valid options: '' @ join '', '' (map opt_text (q_options q))))
   \<and> (\<forall>q \<in> set ASSESSMENT_QUESTIONS. \<forall>opt \<in> set (q_options q).
        q_id q = questionId \<and> opt_text opt = answerText \<longrightarrow>
        validateAnswer questionId answerText = Valid (opt_points opt) (q_category q))"
proof (intro conjI impI ballI)
  assume "questionId \<notin> q_id ` set ASSESSMENT_QUESTIONS"
  then show "validateAnswer questionId answerText = Invalid ''Question not found''"
    by (simp add: validateAnswer_def find_no_key)
next
  fix q
  assume q: "q \<in> set ASSESSMENT_QUESTIONS"
    and h: "q_id q = questionId \<and> answerText \<notin> opt_text ` set (q_options q)"
  from q have "find (\<lambda>y. q_id y = q_id q) ASSESSMENT_QUESTIONS = Some q"
    by (rule find_distinct_key [OF catalog_ids_distinct])
  with h show "validateAnswer questionId answerText =
          Invalid (''Invalid answer option. Valid options: '' @ join '', '' (map opt_text (q_options q)))"
    by (simp add: validateAnswer_def find_no_key)
next
  fix q opt
  assume q: "q \<in> set ASSESSMENT_QUESTIONS" and opt: "opt \<in> set (q_options q)"
    and h: "q_id q = questionId \<and> opt_text opt = answerText"
  from q have "find (\<lambda>y. q_id y = q_id q) ASSESSMENT_QUESTIONS = Some q"
    by (rule find_distinct_key [OF catalog_ids_distinct])
  moreover from opt have "find (\<lambda>y. opt_text y = opt_text opt) (q_options q) = Some opt"
    by (rule find_distinct_key [OF catalog_labels_distinct [OF q]])
  ultimately show "validateAnswer questionId answerText = Valid (opt_points opt) (q_category q)"
    using h by (auto simp add: validateAnswer_def)
qed


theorem validateAnswer_contract_witness:
  "validateAnswer ''behavioral_9'' ''Often'' = Invalid ''Question not found''
   \<and> validateAnswer ''behavioral_1'' ''often'' =
       Invalid ''Invalid answer option. Valid options: Never, Sometimes, Often''
   \<and> validateAnswer ''behavioral_1'' ''Often'' = Valid 3 Behavioral"
proof -
  have q: "first_question \<in> set ASSESSMENT_QUESTIONS"
    by (simp add: first_question_def ASSESSMENT_QUESTIONS_def)
  have o: "mk_option ''Often'' 3 \<in> set (q_options first_question)"
    by (simp add: first_question_def)
  have n: "''behavioral_9'' \<notin> q_id ` set ASSESSMENT_QUESTIONS"
    by (simp add: ASSESSMENT_QUESTIONS_def)
  have l: "q_id first_question = ''behavioral_1''
      \<and> ''often'' \<notin> opt_text ` set (q_options first_question)"
    by (simp add: first_question_def mk_option_def)
  have v: "q_id first_question = ''behavioral_1'' \<and> opt_text (mk_option ''Often'' 3) = ''Often''"
    by (simp add: first_question_def mk_option_def)
  have "validateAnswer ''behavioral_9'' ''Often'' = Invalid ''Question not found''"
    by (rule validateAnswer_contract [THEN conjunct1, rule_format, OF n])
  moreover have "validateAnswer ''behavioral_1'' ''often'' =
       Invalid ''Invalid answer option. Valid options: Never, Sometimes, Often''"
    using validateAnswer_contract [THEN conjunct2, THEN conjunct1, rule_format, OF q l]
    by (simp add: first_question_def mk_option_def)
  moreover have "validateAnswer ''behavioral_1'' ''Often'' = Valid 3 Behavioral"
    using validateAnswer_contract [THEN conjunct2, THEN conjunct2, rule_format, OF q o v]
    by (simp add: first_question_def mk_option_def)
  ultimately show ?thesis by blast
qed

section \<open>Question retrieval\<close>

lemma question_view_without_points: "question_view (without_points q) = question_view q"
  by (simp add: question_view_def without_points_def comp_def)

lemma views_equal:
  assumes "map without_points cat = map without_points cat'"
  shows "map question_view cat = map question_view cat'"
proof -
  have "map question_view cat = map question_view (map without_points cat)"
    by (simp add: question_view_without_points)
  also have "\<dots> = map question_view (map without_points cat')"
    by (simp only: assms)
  also have "\<dots> = map question_view cat'"
    by (simp add: question_view_without_points)
  finally show ?thesis .
qed

lemma find_number_view:
  "map question_view cat = map question_view cat' \<Longrightarrow>
   map_option question_view (find (\<lambda>q. q_number q = n) cat)
     = map_option question_view (find (\<lambda>q. q_number q = n) cat')"
proof (induction cat arbitrary: cat')
  case Nil
  then show ?case by simp
next
  case (Cons q qs)
  then obtain q' qs' where c: "cat' = q' # qs'" and v: "question_view q = question_view q'"
    and r: "map question_view qs = map question_view qs'"
    by (cases cat') auto
  from v have "v_number (question_view q) = v_number (question_view q')" by simp
  then have "q_number q = q_number q'" by (simp add: question_view_def)
  with Cons.IH [OF r] v c show ?case by simp
qed

lemma question_retrieval_independent_of_points:
  assumes "map without_points cat = map without_points cat'"
  shows "getQuestion_in cat d sessionId n = getQuestion_in cat' d sessionId n
       \<and> getQuestions_in cat = getQuestions_in cat'"
proof -
  have v: "map question_view cat = map question_view cat'"
    using assms by (rule views_equal)
  then have "length (map question_view cat) = length (map question_view cat')" by simp
  then have l: "length cat = length cat'" by simp
  have f: "map_option question_view (getQuestionByNumber_in cat n)
         = map_option question_view (getQuestionByNumber_in cat' n)"
    unfolding getQuestionByNumber_in_def using v by (rule find_number_view)
  have "getQuestion_in cat d sessionId n = getQuestion_in cat' d sessionId n"
    using f l
    by (cases "getQuestionByNumber_in cat n"; cases "getQuestionByNumber_in cat' n")
       (simp_all add: getQuestion_in_def split: sum.splits option.splits)
  moreover have "getQuestions_in cat = getQuestions_in cat'"
    using v l by (simp add: getQuestions_in_def)
  ultimately show ?thesis by simp
qed

lemma catalog_numbers: "map q_number ASSESSMENT_QUESTIONS = [1, 2, 3, 4, 5, 6, 7, 8, 9, 10, 11, 12]"
  by (simp add: ASSESSMENT_QUESTIONS_def)

lemma getQuestionByNumber_defined:
  assumes "1 \<le> n" and "n \<le> 12"
  shows "\<exists>q. getQuestionByNumber n = Some q"
proof -
  from assms have "n \<in> set (map q_number ASSESSMENT_QUESTIONS)"
    unfolding catalog_numbers by (simp; presburger)
  then have "find (\<lambda>q. q_number q = n) ASSESSMENT_QUESTIONS \<noteq> None"
    by (auto simp add: find_None_iff)
  then show ?thesis
    by (auto simp add: getQuestionByNumber_def getQuestionByNumber_in_def)
qed

text \<open>
  C9. The answer of \<open>getQuestion\<close> and of \<open>getQuestions\<close> is the same for any two
  catalogs that differ in option point values only. For a session that exists and a
  question number from 1 to 12, \<open>getQuestion\<close> returns the view of that question, whose
  options carry the label texts and nothing else (an \<open>OptionView\<close> has no other field);
  \<open>getQuestions\<close> returns the views of the twelve questions.
\<close>

theorem question_retrieval_hides_points:
  "(map without_points cat = map without_points cat' \<longrightarrow>
      getQuestion_in cat d sessionId n = getQuestion_in cat' d sessionId n
      \<and> getQuestions_in cat = getQuestions_in cat')
   \<and> (sessionId \<noteq> [] \<and> getAssessmentSession d sessionId = Inr (Some session)
        \<and> 1 \<le> n \<and> n \<le> 12 \<longrightarrow>
      (\<exists>q. getQuestionByNumber n = Some q
           \<and> getQuestion d sessionId n = Inr (question_view q, 12)
           \<and> map v_text (v_options (question_view q)) = map opt_text (q_options q)))
   \<and> getQuestions = (map question_view ASSESSMENT_QUESTIONS, 12)"
proof (intro conjI impI)
  assume "map without_points cat = map without_points cat'"
  then show "getQuestion_in cat d sessionId n = getQuestion_in cat' d sessionId n"
    and "getQuestions_in cat = getQuestions_in cat'"
    using question_retrieval_independent_of_points by blast+
next
  assume h: "sessionId \<noteq> [] \<and> getAssessmentSession d sessionId = Inr (Some session)
        \<and> 1 \<le> n \<and> n \<le> 12"
  then obtain q where q: "getQuestionByNumber n = Some q"
    using getQuestionByNumber_defined by blast
  have "length ASSESSMENT_QUESTIONS = 12"
    by (simp add: ASSESSMENT_QUESTIONS_def)
  with h q have "getQuestion d sessionId n = Inr (question_view q, 12)"
    by (simp add: getQuestion_def getQuestion_in_def getQuestionByNumber_def)
  moreover have "map v_text (v_options (question_view q)) = map opt_text (q_options q)"
    by (simp add: question_view_def comp_def)
  ultimately show "\<exists>q. getQuestionByNumber n = Some q
           \<and> getQuestion d sessionId n = Inr (question_view q, 12)
           \<and> map v_text (v_options (question_view q)) = map opt_text (q_options q)"
    using q by blast
next
  show "getQuestions = (map question_view ASSESSMENT_QUESTIONS, 12)"
    by (simp add: getQuestions_def getQuestions_in_def ASSESSMENT_QUESTIONS_def)
qed

theorem question_retrieval_hides_points_witness:
  "getQuestion_in repointed_catalog one_session ''s1'' 1 = getQuestion one_session ''s1'' 1
   \<and> getQuestions_in repointed_catalog = getQuestions
   \<and> getQuestion one_session ''s1'' 1 = Inr (question_view first_question, 12)
   \<and> map opt_points (q_options (hd repointed_catalog)) = [7, 7, 7]
   \<and> map opt_points (q_options (hd ASSESSMENT_QUESTIONS)) = [0, 2, 3]"
proof -
  note t = question_retrieval_hides_points
    [where cat = ASSESSMENT_QUESTIONS and cat' = repointed_catalog and d = one_session
       and sessionId = "''s1''" and n = 1
       and session = "\<lparr>s_sessionId = ''s1'', s_status = in_progress, s_userAgent = None, s_ipHash = None\<rparr>"]
  have e: "map without_points ASSESSMENT_QUESTIONS = map without_points repointed_catalog"
    by (simp add: repointed_catalog_def without_points_def comp_def)
  have s: "''s1'' \<noteq> [] \<and> getAssessmentSession one_session ''s1'' =
      Inr (Some \<lparr>s_sessionId = ''s1'', s_status = in_progress, s_userAgent = None, s_ipHash = None\<rparr>)
      \<and> (1::int) \<le> 1 \<and> (1::int) \<le> 12"
    by (simp add: one_session_def empty_store_def getAssessmentSession_def)
  have f: "getQuestionByNumber 1 = Some first_question"
    by (simp add: getQuestionByNumber_def getQuestionByNumber_in_def ASSESSMENT_QUESTIONS_def
        first_question_def)
  from t [THEN conjunct1, rule_format, OF e]
  have a: "getQuestion_in repointed_catalog one_session ''s1'' 1 = getQuestion one_session ''s1'' 1"
    and b: "getQuestions_in repointed_catalog = getQuestions"
    by (simp_all add: getQuestion_def getQuestions_def)
  from t [THEN conjunct2, THEN conjunct1, rule_format, OF s] f
  have c: "getQuestion one_session ''s1'' 1 = Inr (question_view first_question, 12)"
    by auto
  have p: "map opt_points (q_options (hd repointed_catalog)) = [7, 7, 7]"
    "map opt_points (q_options (hd ASSESSMENT_QUESTIONS)) = [0, 2, 3]"
    by (simp_all add: repointed_catalog_def ASSESSMENT_QUESTIONS_def mk_option_def)
  from a b c p show ?thesis by blast
qed

section \<open>Finalizing a session\<close>

text \<open>A session whose number of response rows is not twelve is refused, with both counts.\<close>

lemma submitAssessment_wrong_count:
  assumes "sessionId \<noteq> []"
    and "getAssessmentSession d sessionId = Inr (Some session)"
    and "getAssessmentResponses d sessionId = Inr rs"
    and "length rs \<noteq> 12"
  shows "submitAssessment d sessionId = (Inl (IncompleteAssessment 12 (length rs)), d)"
  using assms by (simp add: submitAssessment_def ASSESSMENT_QUESTIONS_def)

lemma submitAssessment_never_already_completed:
  "fst (submitAssessment d sessionId) \<noteq> Inl AssessmentAlreadyCompleted"
proof -
  have c: "calculateRiskScore xs \<noteq> Inl AssessmentAlreadyCompleted" for xs
    by (simp add: calculateRiskScore_def Let_def)
  have s: "saveAssessmentResult d sessionId r \<noteq> Inl AssessmentAlreadyCompleted" for r
    by (simp add: saveAssessmentResult_def split: option.splits)
  have g: "getAssessmentSession d sessionId \<noteq> Inl AssessmentAlreadyCompleted"
    by (simp add: getAssessmentSession_def split: option.splits)
  have r: "getAssessmentResponses d sessionId \<noteq> Inl AssessmentAlreadyCompleted"
    by (simp add: getAssessmentResponses_def split: option.splits)
  have k: "completeAssessment d' sessionId \<noteq> Inl AssessmentAlreadyCompleted" for d'
    by (simp add: completeAssessment_def split: option.splits)
  show ?thesis
    using c s g r k
    by (auto simp add: submitAssessment_def split: sum.splits option.splits)
qed

text \<open>
  C2. Finalizing a completed session again should fail with the already-completed
  error. It does not: \<open>submitAssessment\<close> never looks at the session's status (unlike
  \<open>submitResponse\<close>), scores the responses again and tries to insert the result; the
  insert is refused by the unique session identifier of the results table, so the call
  fails with the storage layer's duplicate-entry error and leaves the database as it
  was. No call of \<open>submitAssessment\<close> ever fails with the already-completed error.
\<close>

theorem refinalize_completed_session:
  "map_sum id (map_option s_status) (getAssessmentSession completed_session ''s1'')
     = Inr (Some completed)
   \<and> submitAssessment completed_session ''s1'' = (Inl DuplicateEntry, completed_session)
   \<and> (\<forall>d sessionId. fst (submitAssessment d sessionId) \<noteq> Inl AssessmentAlreadyCompleted)"
proof (intro conjI)
  show "map_sum id (map_option s_status) (getAssessmentSession completed_session ''s1'')
     = Inr (Some completed)"
    by code_simp
  show "submitAssessment completed_session ''s1'' = (Inl DuplicateEntry, completed_session)"
    by code_simp
  show "\<forall>d sessionId. fst (submitAssessment d sessionId) \<noteq> Inl AssessmentAlreadyCompleted"
    by (simp add: submitAssessment_never_already_completed)
qed

text \<open>
  C3. Finalizing should succeed only when the answered question identifiers are exactly
  those of the catalog. \<open>submitAssessment\<close> counts rows instead: a session holding
  twelve responses to the one question \<open>behavioral_1\<close> is finalized, with 36 behavioral
  points.
\<close>

theorem finalize_accepts_duplicates:
  "(case getAssessmentResponses duplicated_session ''s1'' of
      Inl e \<Rightarrow> False
    | Inr rs \<Rightarrow> length rs = 12 \<and> remdups (map r_questionId rs) = [''behavioral_1''])
   \<and> map_sum id categoryScores (fst (submitAssessment duplicated_session ''s1''))
       = Inr \<lparr>behavioral = 36, knowledge = 0, environmental = 0, socioeconomic = 0\<rparr>"
  by code_simp

text \<open>
  C4. Every persisted result should have its percentages in 0 to 100 and its category
  sums at most the category maximum. The session above, reached through
  \<open>createSession\<close>, \<open>submitResponse\<close> and \<open>submitAssessment\<close> alone, persists a behavioral
  sum of 36 (the maximum is 11) and a behavioral percentage of 327.
\<close>

theorem persisted_result_out_of_range:
  "map res_categoryScores
     (stored_results (serve_all (duplicate_requests @ [SubmitAssessment ''s1'']) (Some empty_store)))
     = [\<lparr>behavioral = 36, knowledge = 0, environmental = 0, socioeconomic = 0\<rparr>]
   \<and> map res_categoryPercentages
     (stored_results (serve_all (duplicate_requests @ [SubmitAssessment ''s1'']) (Some empty_store)))
     = [\<lparr>behavioral = 327, knowledge = 0, environmental = 0, socioeconomic = 0\<rparr>]
   \<and> lookup MAX_POINTS_PER_CATEGORY Behavioral = 11"
  by code_simp


end
